theory Spec2Isabelle
  imports Main "HOL-Library.Sublist"
begin

section \<open>Data model\<close>

text \<open>
  The application is a React front end over a hosted auth/database service.  The service,
  the network and the timers are outside the program: every value that an \<open>await\<close>
  yields is an input of the model (an \<^emph>\<open>outcome\<close>), and every call the program makes to the
  service is recorded in a list of requests.  A promise either resolves with the response
  object or rejects (the \<open>await\<close> throws).
\<close>

datatype Role = admin | student

record user_metadata =
  md_full_name :: "string option"

text \<open>\<open>User\<close> of the auth client: \<open>email\<close> and \<open>user_metadata\<close> are read with
  \<open>||\<close> and \<open>?.\<close>, so both may be absent.\<close>

record User =
  user_id :: string
  user_email :: "string option"
  user_metadata :: "user_metadata option"

text \<open>\<open>Session\<close>: the program reads \<open>session?.user\<close> and tests it, so the user of a session
  is optional in the model.\<close>

record Session =
  access_token :: string
  session_user :: "User option"

text \<open>Modelled from the spec: the row type \<open>Database['public']['Tables']['profiles']['Row']\<close>
  is declared in \<open>lib/supabase\<close>, which is not among the sources.  The spec gives it as
  \<open>{id (= user id), email, full_name, role \<in> {admin, student}}\<close>.\<close>

record Profile =
  profile_id :: string
  profile_email :: string
  full_name :: "string option"
  role :: Role

text \<open>An error object found in the \<open>error\<close> field of a response of the service.\<close>

record service_error =
  err_message :: string
  err_code :: string

text \<open>What the program hands to its caller as \<open>error\<close>: an \<open>Error\<close> it constructs itself
  (\<open>new Error(message)\<close>), the error object of a response passed on unchanged, or the value
  caught by a \<open>catch\<close> block (kept as its message).\<close>

datatype js_error =
    Error string
  | ServiceError service_error
  | Caught string

fun error_message :: "js_error \<Rightarrow> string" where
  "error_message (Error m) = m"
| "error_message (ServiceError e) = err_message e"
| "error_message (Caught m) = m"

text \<open>The calls the program makes to the service.  There is no other call in the sources;
  in particular none that deletes an account or a profile row.\<close>

datatype request =
    GetSession
  | GetUser
  | SelectProfile string
  | InsertProfile Profile
  | SignInWithPassword string string
  | AuthSignUp string string string
  | AuthSignOut

fun is_insert :: "request \<Rightarrow> bool" where
  "is_insert (InsertProfile p) = True"
| "is_insert r = False"

subsection \<open>Strings\<close>

text \<open>\<open>String.prototype.includes\<close>: the search string occurs as a contiguous run.\<close>

fun includes_str :: "string \<Rightarrow> string \<Rightarrow> bool" where
  "includes_str [] search = (search = [])"
| "includes_str (c # cs) search = (prefix search (c # cs) \<or> includes_str cs search)"

text \<open>
  A \<open>string\<close> is the sequence of the bytes of its UTF-8 encoding.  \<open>white_space\<close> lists the
  encodings of the code points that \<open>String.prototype.trim\<close> removes: the \<open>WhiteSpace\<close> of
  ECMAScript (TAB, VT, FF, U+FEFF and the space separators U+0020, U+00A0, U+1680,
  U+2000 to U+200A, U+202F, U+205F, U+3000) and its \<open>LineTerminator\<close> (LF, CR, U+2028,
  U+2029).
\<close>

definition white_space :: "string list" where
  "white_space =
     [[CHR 0x09], [CHR 0x0A], [CHR 0x0B], [CHR 0x0C], [CHR 0x0D], [CHR 0x20],
      [CHR 0xC2, CHR 0xA0],
      [CHR 0xE1, CHR 0x9A, CHR 0x80],
      [CHR 0xE2, CHR 0x80, CHR 0x80], [CHR 0xE2, CHR 0x80, CHR 0x81],
      [CHR 0xE2, CHR 0x80, CHR 0x82], [CHR 0xE2, CHR 0x80, CHR 0x83],
      [CHR 0xE2, CHR 0x80, CHR 0x84], [CHR 0xE2, CHR 0x80, CHR 0x85],
      [CHR 0xE2, CHR 0x80, CHR 0x86], [CHR 0xE2, CHR 0x80, CHR 0x87],
      [CHR 0xE2, CHR 0x80, CHR 0x88], [CHR 0xE2, CHR 0x80, CHR 0x89],
      [CHR 0xE2, CHR 0x80, CHR 0x8A],
      [CHR 0xE2, CHR 0x80, CHR 0xA8], [CHR 0xE2, CHR 0x80, CHR 0xA9],
      [CHR 0xE2, CHR 0x80, CHR 0xAF],
      [CHR 0xE2, CHR 0x81, CHR 0x9F],
      [CHR 0xE3, CHR 0x80, CHR 0x80],
      [CHR 0xEF, CHR 0xBB, CHR 0xBF]]"

text \<open>Removes from the front of \<open>s\<close> every leading member of \<open>ws\<close>, at most \<open>n\<close> of them; each
  one is at least a byte long, so \<open>n = length s\<close> removes them all (\<open>strip_complete\<close>).\<close>

fun strip :: "string list \<Rightarrow> nat \<Rightarrow> string \<Rightarrow> string" where
  "strip ws 0 s = s"
| "strip ws (Suc n) s =
     (case find (\<lambda>w. prefix w s) ws of
        None \<Rightarrow> s
      | Some w \<Rightarrow> strip ws n (drop (length w) s))"

definition trimStart :: "string \<Rightarrow> string" where
  "trimStart s = strip white_space (length s) s"

definition trimEnd :: "string \<Rightarrow> string" where
  "trimEnd s = rev (strip (map rev white_space) (length s) (rev s))"

text \<open>\<open>String.prototype.trim\<close>.\<close>

definition trim :: "string \<Rightarrow> string" where
  "trim s = trimEnd (trimStart s)"

text \<open>Truthiness of an environment variable (\<open>string | undefined\<close>): defined and not empty.\<close>

fun truthy :: "string option \<Rightarrow> bool" where
  "truthy None = False"
| "truthy (Some s) = (s \<noteq> [])"

text \<open>\<open>a || b\<close> on an optional string: the left operand when it is truthy.\<close>

fun or_else :: "string option \<Rightarrow> 'a \<Rightarrow> (string \<Rightarrow> 'a) \<Rightarrow> 'a" where
  "or_else None d f = d"
| "or_else (Some s) d f = (if s = [] then d else f s)"

record env =
  VITE_SUPABASE_URL :: "string option"
  VITE_SUPABASE_ANON_KEY :: "string option"

section \<open>Profile Fetcher: \<open>fetchUserProfile\<close>\<close>

text \<open>
  The outcomes of the three awaits of \<open>fetchUserProfile\<close>.  The first await is a race of
  the lookup with a 5000 ms timer; time is not modelled, the outcome says who won.
\<close>

datatype lookup_outcome =
    LookupResolved "Profile option" "service_error option"
  | LookupRejected
  | LookupTimeout

datatype get_user_outcome =
    GetUserResolved "User option"
  | GetUserRejected

datatype insert_outcome =
    InsertResolved "Profile option" "service_error option"
  | InsertRejected string

record backend =
  lookup :: "string \<Rightarrow> lookup_outcome"
  getUser :: get_user_outcome
  insert_row :: "Profile \<Rightarrow> insert_outcome"

text \<open>The object literal \<open>newProfile\<close> of the fallback.\<close>

definition newProfile :: "string \<Rightarrow> User \<Rightarrow> Profile" where
  "newProfile userId u =
     \<lparr> profile_id = userId,
       profile_email = or_else (user_email u) [] (\<lambda>s. s),
       full_name =
         (case user_metadata u of
            None \<Rightarrow> None
          | Some md \<Rightarrow> or_else (md_full_name md) None Some),
       role = student \<rparr>"

text \<open>
  \<open>fetchUserProfile\<close> returns the requests it issued and its result.  Every exception is
  caught and turned into \<open>null\<close>: a rejected await, the timer winning the race, and the
  \<open>TypeError\<close> of reading \<open>.role\<close> of a \<open>null\<close> row in the two log lines.
\<close>

definition fetchUserProfile :: "backend \<Rightarrow> string \<Rightarrow> request list \<times> Profile option" where
  "fetchUserProfile b userId =
     (case lookup b userId of
        LookupTimeout \<Rightarrow> ([SelectProfile userId], None)
      | LookupRejected \<Rightarrow> ([SelectProfile userId], None)
      | LookupResolved data (Some err) \<Rightarrow>
          if err_code err = ''PGRST116'' then
            (case getUser b of
               GetUserRejected \<Rightarrow> ([SelectProfile userId, GetUser], None)
             | GetUserResolved None \<Rightarrow> ([SelectProfile userId, GetUser], None)
             | GetUserResolved (Some u) \<Rightarrow>
                 (case insert_row b (newProfile userId u) of
                    InsertRejected x \<Rightarrow>
                      ([SelectProfile userId, GetUser, InsertProfile (newProfile userId u)], None)
                  | InsertResolved createdProfile (Some createError) \<Rightarrow>
                      ([SelectProfile userId, GetUser, InsertProfile (newProfile userId u)], None)
                  | InsertResolved createdProfile None \<Rightarrow>
                      ([SelectProfile userId, GetUser, InsertProfile (newProfile userId u)],
                       createdProfile)))
          else ([SelectProfile userId], None)
      | LookupResolved data None \<Rightarrow> ([SelectProfile userId], data))"

section \<open>Auth Operations: \<open>signIn\<close>, \<open>signUp\<close>\<close>

datatype sign_in_outcome =
    SignInResolved "User option" "Session option" "service_error option"
  | SignInRejected string

definition not_configured :: string where
  "not_configured = ''Database connection not configured. Please check environment variables.''"

definition unable_to_connect :: string where
  "unable_to_connect =
     ''Unable to connect to the database. Please check your internet connection and try again.''"

text \<open>\<open>signIn\<close> sets no state; it returns \<open>{ error }\<close>.  The first component lists the
  requests made: none when the configuration is missing.\<close>

definition signIn :: "env \<Rightarrow> string \<Rightarrow> string \<Rightarrow> sign_in_outcome \<Rightarrow> request list \<times> js_error option" where
  "signIn e email password r =
     (if \<not> truthy (VITE_SUPABASE_URL e) \<or> \<not> truthy (VITE_SUPABASE_ANON_KEY e)
      then ([], Some (Error not_configured))
      else
        (case r of
           SignInRejected x \<Rightarrow> ([SignInWithPassword (trim email) password], Some (Caught x))
         | SignInResolved u sess (Some error) \<Rightarrow>
             if includes_str (err_message error) ''Failed to fetch''
                \<or> includes_str (err_message error) ''fetch''
             then ([SignInWithPassword (trim email) password], Some (Error unable_to_connect))
             else ([SignInWithPassword (trim email) password], Some (ServiceError error))
         | SignInResolved u sess None \<Rightarrow>
             if u = None \<or> sess = None
             then ([SignInWithPassword (trim email) password], Some (Error ''Authentication failed''))
             else ([SignInWithPassword (trim email) password], None)))"

datatype sign_up_outcome =
    SignUpResolved "User option" "service_error option"
  | SignUpRejected string

text \<open>The object literal \<open>profileData\<close> of \<open>signUp\<close>.\<close>

definition profileData :: "User \<Rightarrow> string \<Rightarrow> string \<Rightarrow> Role \<Rightarrow> Profile" where
  "profileData u email fullName r =
     \<lparr> profile_id = user_id u, profile_email = trim email, full_name = Some fullName, role = r \<rparr>"

definition signUp ::
  "string \<Rightarrow> string \<Rightarrow> string \<Rightarrow> Role \<Rightarrow> sign_up_outcome \<Rightarrow> (Profile \<Rightarrow> insert_outcome)
     \<Rightarrow> request list \<times> js_error option" where
  "signUp email password fullName r created ins =
     (case created of
        SignUpRejected x \<Rightarrow> ([AuthSignUp (trim email) password fullName], Some (Caught x))
      | SignUpResolved u (Some error) \<Rightarrow>
          ([AuthSignUp (trim email) password fullName], Some (ServiceError error))
      | SignUpResolved None None \<Rightarrow> ([AuthSignUp (trim email) password fullName], None)
      | SignUpResolved (Some u) None \<Rightarrow>
          (case ins (profileData u email fullName r) of
             InsertRejected x \<Rightarrow>
               ([AuthSignUp (trim email) password fullName,
                 InsertProfile (profileData u email fullName r)], Some (Caught x))
           | InsertResolved d (Some profileError) \<Rightarrow>
               ([AuthSignUp (trim email) password fullName,
                 InsertProfile (profileData u email fullName r)], Some (ServiceError profileError))
           | InsertResolved d None \<Rightarrow>
               ([AuthSignUp (trim email) password fullName,
                 InsertProfile (profileData u email fullName r)], None)))"

section \<open>Session Store: the state of \<open>AuthProvider\<close>\<close>

text \<open>
  JavaScript runs each piece of code between two awaits to completion, so the provider is
  a state machine whose steps are those pieces: the continuation of \<open>initializeAuth\<close> after
  \<open>getSession\<close>, its continuation after \<open>fetchUserProfile\<close>, the timer callback, the effect's
  cleanup, the listener \<open>handleAuthStateChange\<close> up to its await, its continuation, and
  the continuation of \<open>signOut\<close>.  The order in which they run is chosen by the
  environment; the state updates made within one piece are taken together.

  Besides the five \<open>useState\<close> cells the state holds what the effect's closure holds:
  \<open>mounted\<close>, whether the 8000 ms timer \<open>timeoutId\<close> is pending, where \<open>initializeAuth\<close> is
  suspended, and how many calls of the listener are suspended in \<open>fetchUserProfile\<close>.
\<close>

datatype init_phase = NotStarted | AwaitSession | AwaitProfile | Finished

record auth_state =
  user :: "User option"
  profile :: "Profile option"
  session :: "Session option"
  loading :: bool
  initialized :: bool
  mounted :: bool
  timeoutId :: bool
  init_phase :: init_phase
  pending_fetches :: nat

text \<open>The initial values of the \<open>useState\<close> cells, before the effect has run.\<close>

definition initial_state :: auth_state where
  "initial_state =
     \<lparr> user = None, profile = None, session = None, loading = True, initialized = False,
       mounted = False, timeoutId = False, init_phase = NotStarted, pending_fetches = 0 \<rparr>"

text \<open>The effect has the dependency list \<open>[]\<close>: it runs once, and \<open>initializeAuth\<close> and the
  timer callback read the \<open>initialized\<close> of the first render, which is \<open>false\<close>, whatever
  \<open>setInitialized\<close> has stored since.\<close>

definition closure_initialized :: bool where
  "closure_initialized = False"

datatype get_session_outcome =
    GetSessionResolved "Session option" "service_error option"
  | GetSessionRejected string

text \<open>What \<open>await fetchUserProfile(id)\<close> yields in a caller.  \<open>fetchUserProfile\<close> catches
  everything itself; the callers have a \<open>catch\<close> all the same, which \<open>FetchThrew\<close> reaches.\<close>

datatype fetch_outcome =
    FetchReturned "Profile option"
  | FetchThrew

datatype sign_out_outcome =
    SignOutResolved "service_error option"
  | SignOutRejected string

definition clear_auth :: "auth_state \<Rightarrow> auth_state" where
  "clear_auth s = s\<lparr>user := None, profile := None, session := None\<rparr>"

text \<open>\<open>session?.user\<close>.\<close>

definition user_of :: "Session option \<Rightarrow> User option" where
  "user_of sess = (case sess of None \<Rightarrow> None | Some x \<Rightarrow> session_user x)"

subsection \<open>Bootstrap: \<open>initializeAuth\<close>\<close>

text \<open>Up to the first await: the re-entrance guard, then the timer is set and
  \<open>getSession\<close> is requested.\<close>

definition initializeAuth :: "auth_state \<Rightarrow> auth_state" where
  "initializeAuth s =
     (if closure_initialized then s\<lparr>init_phase := Finished\<rparr>
      else s\<lparr>timeoutId := True, init_phase := AwaitSession\<rparr>)"

text \<open>The effect body: \<open>mounted = true\<close>, the listener is attached, then
  \<open>initializeAuth()\<close> is called.\<close>

definition useEffect_body :: "auth_state \<Rightarrow> auth_state" where
  "useEffect_body s = initializeAuth (s\<lparr>mounted := True\<rparr>)"

definition mounted_state :: auth_state where
  "mounted_state = useEffect_body initial_state"

text \<open>The \<open>finally\<close> block of \<open>initializeAuth\<close>.\<close>

definition finally_block :: "auth_state \<Rightarrow> auth_state" where
  "finally_block s =
     (if mounted s
      then s\<lparr>timeoutId := False, loading := False, initialized := True, init_phase := Finished\<rparr>
      else s\<lparr>init_phase := Finished\<rparr>)"

text \<open>From the resumption after \<open>await supabase.auth.getSession()\<close> to the next await or
  to the end.  A rejection goes to the \<open>catch\<close> block; the \<open>return\<close>s inside \<open>try\<close> still run
  \<open>finally\<close>.\<close>

definition initializeAuth_session :: "get_session_outcome \<Rightarrow> auth_state \<Rightarrow> auth_state" where
  "initializeAuth_session r s =
     (case r of
        GetSessionRejected x \<Rightarrow> finally_block (if mounted s then clear_auth s else s)
      | GetSessionResolved currentSession error \<Rightarrow>
          if \<not> mounted s then finally_block s
          else if error \<noteq> None
          then finally_block ((clear_auth s)\<lparr>loading := False, initialized := True\<rparr>)
          else
            (case user_of currentSession of
               Some u \<Rightarrow> s\<lparr>session := currentSession, user := Some u, init_phase := AwaitProfile\<rparr>
             | None \<Rightarrow> finally_block (clear_auth s)))"

text \<open>From the resumption after \<open>await fetchUserProfile(currentSession.user.id)\<close> to the
  end.\<close>

definition initializeAuth_profile :: "fetch_outcome \<Rightarrow> auth_state \<Rightarrow> auth_state" where
  "initializeAuth_profile r s =
     finally_block
       (case r of
          FetchReturned userProfile \<Rightarrow> if mounted s then s\<lparr>profile := userProfile\<rparr> else s
        | FetchThrew \<Rightarrow> if mounted s then s\<lparr>profile := None\<rparr> else s)"

text \<open>The callback of the 8000 ms timer.\<close>

definition timeout_handler :: "auth_state \<Rightarrow> auth_state" where
  "timeout_handler s =
     (if mounted s \<and> \<not> closure_initialized
      then s\<lparr>loading := False, initialized := True\<rparr>
      else s)"

text \<open>The function the effect returns.\<close>

definition cleanup :: "auth_state \<Rightarrow> auth_state" where
  "cleanup s = s\<lparr>mounted := False, timeoutId := False\<rparr>"

subsection \<open>Listener: \<open>handleAuthStateChange\<close>\<close>

definition handleAuthStateChange :: "string \<Rightarrow> Session option \<Rightarrow> auth_state \<Rightarrow> auth_state" where
  "handleAuthStateChange event newSession s =
     (if \<not> mounted s then s
      else if user_of newSession \<noteq> None \<and> event \<noteq> ''TOKEN_REFRESHED''
      then s\<lparr>session := newSession, user := user_of newSession,
             pending_fetches := Suc (pending_fetches s)\<rparr>
      else if user_of newSession = None
      then s\<lparr>session := newSession, user := user_of newSession, profile := None\<rparr>
      else s\<lparr>session := newSession, user := user_of newSession\<rparr>)"

text \<open>From the resumption after \<open>await fetchUserProfile(newSession.user.id)\<close> to the end.\<close>

definition handleAuthStateChange_profile :: "fetch_outcome \<Rightarrow> auth_state \<Rightarrow> auth_state" where
  "handleAuthStateChange_profile r s =
     (case r of
        FetchReturned userProfile \<Rightarrow>
          if mounted s then s\<lparr>profile := userProfile, pending_fetches := pending_fetches s - 1\<rparr>
          else s\<lparr>pending_fetches := pending_fetches s - 1\<rparr>
      | FetchThrew \<Rightarrow>
          if mounted s then s\<lparr>profile := None, pending_fetches := pending_fetches s - 1\<rparr>
          else s\<lparr>pending_fetches := pending_fetches s - 1\<rparr>)"

subsection \<open>\<open>signOut\<close>\<close>

text \<open>From the resumption after \<open>await supabase.auth.signOut()\<close> to the end.  The three
  setters stand inside the \<open>try\<close> block, after the await; the \<open>catch\<close> block only logs.\<close>

definition signOut :: "sign_out_outcome \<Rightarrow> auth_state \<Rightarrow> auth_state" where
  "signOut r s =
     (case r of
        SignOutResolved error \<Rightarrow> s\<lparr>user := None, profile := None, session := None\<rparr>
      | SignOutRejected x \<Rightarrow> s)"

subsection \<open>Runs\<close>

datatype event =
    GetSessionSettled get_session_outcome
  | InitProfileSettled fetch_outcome
  | TimeoutFired
  | Unmount
  | AuthStateChange string "Session option"
  | HandlerProfileSettled fetch_outcome
  | SignOutSettled sign_out_outcome

text \<open>One step.  A continuation runs only if it is pending and the timer fires only if it is
  set; an event that is not enabled leaves the state as it is.\<close>

fun step :: "event \<Rightarrow> auth_state \<Rightarrow> auth_state" where
  "step (GetSessionSettled r) s =
     (if init_phase s = AwaitSession then initializeAuth_session r s else s)"
| "step (InitProfileSettled r) s =
     (if init_phase s = AwaitProfile then initializeAuth_profile r s else s)"
| "step TimeoutFired s =
     (if timeoutId s then timeout_handler (s\<lparr>timeoutId := False\<rparr>) else s)"
| "step Unmount s = (if mounted s then cleanup s else s)"
| "step (AuthStateChange event newSession) s = handleAuthStateChange event newSession s"
| "step (HandlerProfileSettled r) s =
     (if 0 < pending_fetches s then handleAuthStateChange_profile r s else s)"
| "step (SignOutSettled r) s = signOut r s"

fun run :: "auth_state \<Rightarrow> event list \<Rightarrow> auth_state" where
  "run s [] = s"
| "run s (e # es) = run (step e s) es"

text \<open>All states of a run, the first one included.\<close>

fun states :: "auth_state \<Rightarrow> event list \<Rightarrow> auth_state list" where
  "states s [] = [s]"
| "states s (e # es) = s # states (step e s) es"

text \<open>The derived flags of the context value.\<close>

definition isAdmin :: "auth_state \<Rightarrow> bool" where
  "isAdmin s = (case profile s of None \<Rightarrow> False | Some p \<Rightarrow> role p = admin)"

definition isStudent :: "auth_state \<Rightarrow> bool" where
  "isStudent s = (case profile s of None \<Rightarrow> False | Some p \<Rightarrow> role p = student)"

section \<open>Route Guard: \<open>ProtectedRoute\<close>\<close>

datatype element =
    LoadingPlaceholder
  | Navigate string
  | ProfileSetupScreen
  | Children

definition ProtectedRoute :: "bool \<Rightarrow> bool \<Rightarrow> auth_state \<Rightarrow> element" where
  "ProtectedRoute requireAdmin requireStudent ctx =
     (if loading ctx then LoadingPlaceholder
      else if user ctx = None then Navigate ''/login''
      else
        (case profile ctx of
           None \<Rightarrow> ProfileSetupScreen
         | Some p \<Rightarrow>
             if requireAdmin \<and> role p \<noteq> admin then Navigate ''/dashboard''
             else if requireStudent \<and> role p \<noteq> student then Navigate ''/admin''
             else Children))"

section \<open>Connectivity Banner: \<open>ConnectionStatus\<close>\<close>

record connection_state =
  isOnline :: bool
  showOfflineMessage :: bool

text \<open>The initial values of the two \<open>useState\<close> cells; the argument is
  \<open>navigator.onLine\<close> at the first render.\<close>

definition connection_initial :: "bool \<Rightarrow> connection_state" where
  "connection_initial navigator_onLine =
     \<lparr> isOnline = navigator_onLine, showOfflineMessage = False \<rparr>"

definition handleOnline :: "connection_state \<Rightarrow> connection_state" where
  "handleOnline s = s\<lparr>isOnline := True, showOfflineMessage := False\<rparr>"

definition handleOffline :: "connection_state \<Rightarrow> connection_state" where
  "handleOffline s = s\<lparr>isOnline := False, showOfflineMessage := True\<rparr>"

datatype window_event = online | offline

fun dispatch :: "window_event \<Rightarrow> connection_state \<Rightarrow> connection_state" where
  "dispatch online s = handleOnline s"
| "dispatch offline s = handleOffline s"

fun dispatch_all :: "connection_state \<Rightarrow> window_event list \<Rightarrow> connection_state" where
  "dispatch_all s [] = s"
| "dispatch_all s (e # es) = dispatch_all (dispatch e s) es"

definition supabaseConfigured :: "env \<Rightarrow> bool" where
  "supabaseConfigured e = (truthy (VITE_SUPABASE_URL e) \<and> truthy (VITE_SUPABASE_ANON_KEY e))"

datatype banner = ConfigurationErrorBanner | OfflineBanner | NoBanner

definition ConnectionStatus :: "env \<Rightarrow> connection_state \<Rightarrow> banner" where
  "ConnectionStatus e s =
     (if \<not> supabaseConfigured e then ConfigurationErrorBanner
      else if \<not> isOnline s \<and> showOfflineMessage s then OfflineBanner
      else NoBanner)"

section \<open>Properties of runs\<close>

text \<open>The invariant of \<open>AuthState\<close> as the specification words it, in both directions.\<close>

definition auth_invariant :: "auth_state \<Rightarrow> bool" where
  "auth_invariant s =
     ((profile s \<noteq> None \<longrightarrow> user s \<noteq> None) \<and> (user s = None \<longrightarrow> profile s = None))"

text \<open>A call of \<open>fetchUserProfile\<close> has been made and its caller has not resumed yet.\<close>

definition fetch_in_flight :: "auth_state \<Rightarrow> bool" where
  "fetch_in_flight s = (init_phase s = AwaitProfile \<or> 0 < pending_fetches s)"

text \<open>No step of the run leaves the user absent while a profile fetch is in flight.\<close>

fun fetch_guarded :: "auth_state \<Rightarrow> event list \<Rightarrow> bool" where
  "fetch_guarded s [] = True"
| "fetch_guarded s (e # es) =
     ((user (step e s) = None \<longrightarrow> \<not> fetch_in_flight (step e s)) \<and> fetch_guarded (step e s) es)"

text \<open>The number of changes from \<open>true\<close> to \<open>false\<close>, and from \<open>false\<close> to \<open>true\<close>, between
  neighbours of a list of values.\<close>

fun falls :: "bool list \<Rightarrow> nat" where
  "falls (a # b # bs) = (if a \<and> \<not> b then 1 else 0) + falls (b # bs)"
| "falls bs = 0"

fun rises :: "bool list \<Rightarrow> nat" where
  "rises (a # b # bs) = (if \<not> a \<and> b then 1 else 0) + rises (b # bs)"
| "rises bs = 0"

text \<open>\<open>getSession\<close> failed: it reported an error, or the call threw.\<close>

fun session_failed :: "get_session_outcome \<Rightarrow> bool" where
  "session_failed (GetSessionRejected x) = True"
| "session_failed (GetSessionResolved sess error) = (error \<noteq> None)"

text \<open>Sample values.\<close>

definition user0 :: User where
  "user0 = \<lparr> user_id = ''u1'', user_email = Some ''a@b.c'',
             user_metadata = Some \<lparr> md_full_name = Some ''Ann'' \<rparr> \<rparr>"

definition session0 :: Session where
  "session0 = \<lparr> access_token = ''t1'', session_user = Some user0 \<rparr>"

definition profile0 :: Profile where
  "profile0 = \<lparr> profile_id = ''u1'', profile_email = ''a@b.c'', full_name = Some ''Ann'',
                role = admin \<rparr>"

definition signed_in_state :: auth_state where
  "signed_in_state =
     \<lparr> user = Some user0, profile = Some profile0, session = Some session0, loading = False,
       initialized = True, mounted = True, timeoutId = False, init_phase = Finished,
       pending_fetches = 0 \<rparr>"

definition session_found :: event where
  "session_found = GetSessionSettled (GetSessionResolved (Some session0) None)"

definition session_error :: event where
  "session_error =
     GetSessionSettled
       (GetSessionResolved None
          (Some \<lparr> err_message = ''Invalid Refresh Token'', err_code = ''400'' \<rparr>))"

definition profile_found :: event where
  "profile_found = InitProfileSettled (FetchReturned (Some profile0))"

definition signed_out :: event where
  "signed_out = AuthStateChange ''SIGNED_OUT'' None"

definition row_not_found :: service_error where
  "row_not_found =
     \<lparr> err_message = ''JSON object requested, multiple (or no) rows returned'',
       err_code = ''PGRST116'' \<rparr>"

definition insert_denied :: service_error where
  "insert_denied =
     \<lparr> err_message = ''new row violates row-level security policy'', err_code = ''42501'' \<rparr>"

text \<open>A service without a row for the user that refuses the insert, and one that stores
  the row and returns it.\<close>

definition backend_denying :: backend where
  "backend_denying =
     \<lparr> lookup = (\<lambda>userId. LookupResolved None (Some row_not_found)),
       getUser = GetUserResolved (Some user0),
       insert_row = (\<lambda>p. InsertResolved None (Some insert_denied)) \<rparr>"

definition backend_storing :: backend where
  "backend_storing =
     \<lparr> lookup = (\<lambda>userId. LookupResolved None (Some row_not_found)),
       getUser = GetUserResolved (Some user0),
       insert_row = (\<lambda>p. InsertResolved (Some p) None) \<rparr>"

definition env0 :: env where
  "env0 = \<lparr> VITE_SUPABASE_URL = Some ''https://x.supabase.co'',
            VITE_SUPABASE_ANON_KEY = Some ''k'' \<rparr>"

definition env_missing :: env where
  "env_missing = \<lparr> VITE_SUPABASE_URL = None, VITE_SUPABASE_ANON_KEY = Some ''k'' \<rparr>"

definition fetch_failed :: service_error where
  "fetch_failed = \<lparr> err_message = ''Failed to fetch'', err_code = [] \<rparr>"

definition bad_password :: service_error where
  "bad_password =
     \<lparr> err_message = ''Invalid login credentials'', err_code = ''invalid_credentials'' \<rparr>"

text \<open>The message of a failed \<open>fetch\<close> in WebKit.\<close>

definition load_failed :: service_error where
  "load_failed = \<lparr> err_message = ''Load failed'', err_code = [] \<rparr>"

text \<open>While the provider is mounted and still loading, the bootstrap has not returned and
  its timer is pending.\<close>

definition bootstrap_live :: "auth_state \<Rightarrow> bool" where
  "bootstrap_live s = (mounted s \<and> loading s \<longrightarrow> timeoutId s \<and> init_phase s \<noteq> Finished)"

text \<open>The invariant, together with what keeps it: a fetch is in flight only for a user.\<close>

definition fetch_safe :: "auth_state \<Rightarrow> bool" where
  "fetch_safe s = (auth_invariant s \<and> (user s = None \<longrightarrow> \<not> fetch_in_flight s))"

section \<open>Auxiliary facts\<close>

lemma includes_str_sublist: "includes_str s t = sublist t s"
  by (induction s) (simp_all add: sublist_Cons_right)

lemma includes_str_suffix: "includes_str s (a @ b) \<Longrightarrow> includes_str s b"
proof -
  assume "includes_str s (a @ b)"
  then obtain ps ss where "s = ps @ (a @ b) @ ss"
    by (auto simp: includes_str_sublist sublist_def)
  then have "s = (ps @ a) @ b @ ss" by simp
  then show ?thesis
    unfolding includes_str_sublist sublist_def by blast
qed

lemma includes_Failed_to_fetch:
  "includes_str s ''Failed to fetch'' \<Longrightarrow> includes_str s ''fetch''"
  using includes_str_suffix [of s "''Failed to ''" "''fetch''"] by simp

lemma strip_complete:
  assumes "[] \<notin> set ws" and "length s \<le> n"
  shows "find (\<lambda>w. prefix w (strip ws n s)) ws = None"
  using assms(2)
proof (induction n arbitrary: s)
  case 0
  with assms(1) show ?case by (auto simp: find_None_iff)
next
  case (Suc n)
  show ?case
  proof (cases "find (\<lambda>w. prefix w s) ws")
    case None
    then show ?thesis by simp
  next
    case (Some w)
    then have "w \<in> set ws" and "prefix w s"
      by (auto simp: find_Some_iff)
    with assms(1) have "w \<noteq> []" by auto
    with \<open>prefix w s\<close> have "s \<noteq> []" by auto
    with \<open>w \<noteq> []\<close> Suc.prems have "length (drop (length w) s) \<le> n"
      by (cases w; cases s) auto
    then have "find (\<lambda>v. prefix v (strip ws n (drop (length w) s))) ws = None"
      by (rule Suc.IH)
    with Some show ?thesis by simp
  qed
qed

lemma trimStart_complete: "find (\<lambda>w. prefix w (trimStart s)) white_space = None"
  unfolding trimStart_def by (rule strip_complete) (simp_all add: white_space_def)

lemma trim_sample: "trim '' a@b.c '' = ''a@b.c''"
  by code_simp

lemma mounted_state_eq:
  "mounted_state =
     \<lparr> user = None, profile = None, session = None, loading = True, initialized = False,
       mounted = True, timeoutId = True, init_phase = AwaitSession, pending_fetches = 0 \<rparr>"
  by (simp add: mounted_state_def useEffect_body_def initializeAuth_def initial_state_def
      closure_initialized_def)

lemmas sample_defs =
  session_found_def session_error_def profile_found_def signed_out_def session0_def user_of_def

lemma signed_in_state_reachable:
  "run mounted_state [session_found, profile_found] = signed_in_state"
  by (simp add: mounted_state_eq sample_defs signed_in_state_def initializeAuth_session_def
      initializeAuth_profile_def finally_block_def)

subsection \<open>\<open>loading\<close> never rises\<close>

lemma loading_step: "\<not> loading s \<Longrightarrow> \<not> loading (step e s)"
proof (cases e)
  case (GetSessionSettled r)
  assume "\<not> loading s"
  then show ?thesis
    by (simp add: GetSessionSettled initializeAuth_session_def finally_block_def clear_auth_def
        split: get_session_outcome.split option.split)
next
  case (InitProfileSettled r)
  assume "\<not> loading s"
  then show ?thesis
    by (simp add: InitProfileSettled initializeAuth_profile_def finally_block_def
        split: fetch_outcome.split)
next
  case TimeoutFired
  assume "\<not> loading s"
  then show ?thesis by (simp add: TimeoutFired timeout_handler_def)
next
  case Unmount
  assume "\<not> loading s"
  then show ?thesis by (simp add: Unmount cleanup_def)
next
  case (AuthStateChange ev ns)
  assume "\<not> loading s"
  then show ?thesis by (simp add: AuthStateChange handleAuthStateChange_def)
next
  case (HandlerProfileSettled r)
  assume "\<not> loading s"
  then show ?thesis
    by (simp add: HandlerProfileSettled handleAuthStateChange_profile_def
        split: fetch_outcome.split)
next
  case (SignOutSettled r)
  assume "\<not> loading s"
  then show ?thesis by (simp add: SignOutSettled signOut_def split: sign_out_outcome.split)
qed

lemma loading_run: "\<not> loading s \<Longrightarrow> \<not> loading (run s es)"
  by (induction es arbitrary: s) (simp_all add: loading_step)

lemma rises_loading: "rises (map loading (states s es)) = 0"
proof (induction es arbitrary: s)
  case Nil
  then show ?case by simp
next
  case (Cons e es)
  have "rises (map loading (states (step e s) es)) = 0" by (rule Cons.IH)
  moreover have "\<not> (\<not> loading s \<and> loading (step e s))"
    using loading_step [of s e] by blast
  ultimately show ?case by (cases es) auto
qed

lemma falls_loading:
  "falls (map loading (states s es)) = (if loading s \<and> \<not> loading (run s es) then 1 else 0)"
proof (induction es arbitrary: s)
  case Nil
  then show ?case by simp
next
  case (Cons e es)
  have ih: "falls (map loading (states (step e s) es)) =
              (if loading (step e s) \<and> \<not> loading (run (step e s) es) then 1 else 0)"
    by (rule Cons.IH)
  have "falls (map loading (states s (e # es))) =
          (if loading s \<and> \<not> loading (step e s) then 1 else 0)
          + falls (map loading (states (step e s) es))"
    by (cases es) simp_all
  with ih show ?case
    using loading_step [of s e] loading_run [of "step e s" es] by auto
qed

subsection \<open>While loading, the bootstrap is still under way\<close>

lemma bootstrap_live_finally: "bootstrap_live (finally_block s)"
  by (simp add: bootstrap_live_def finally_block_def)

lemma bootstrap_live_step: "bootstrap_live s \<Longrightarrow> bootstrap_live (step e s)"
proof (cases e)
  case (GetSessionSettled r)
  assume "bootstrap_live s"
  then have "bootstrap_live (initializeAuth_session r s)"
    by (simp add: initializeAuth_session_def bootstrap_live_finally
        split: get_session_outcome.split option.split) (simp add: bootstrap_live_def)
  with \<open>bootstrap_live s\<close> show ?thesis by (simp add: GetSessionSettled)
next
  case (InitProfileSettled r)
  assume "bootstrap_live s"
  then show ?thesis
    by (simp add: InitProfileSettled initializeAuth_profile_def bootstrap_live_finally)
next
  case TimeoutFired
  assume "bootstrap_live s"
  then show ?thesis
    by (auto simp: TimeoutFired timeout_handler_def bootstrap_live_def closure_initialized_def)
next
  case Unmount
  assume "bootstrap_live s"
  then show ?thesis by (simp add: Unmount cleanup_def bootstrap_live_def)
next
  case (AuthStateChange ev ns)
  assume "bootstrap_live s"
  then show ?thesis by (simp add: AuthStateChange handleAuthStateChange_def bootstrap_live_def)
next
  case (HandlerProfileSettled r)
  assume "bootstrap_live s"
  then show ?thesis
    by (simp add: HandlerProfileSettled handleAuthStateChange_profile_def bootstrap_live_def
        split: fetch_outcome.split)
next
  case (SignOutSettled r)
  assume "bootstrap_live s"
  then show ?thesis
    by (simp add: SignOutSettled signOut_def bootstrap_live_def split: sign_out_outcome.split)
qed

lemma bootstrap_live_run: "bootstrap_live s \<Longrightarrow> bootstrap_live (run s es)"
  by (induction es arbitrary: s) (simp_all add: bootstrap_live_step)

lemma bootstrap_live_mounted: "bootstrap_live mounted_state"
  by (simp add: bootstrap_live_def mounted_state_eq)

lemma session_failed_clears:
  assumes "mounted s" and "session_failed r"
  shows "initializeAuth_session r s =
           s\<lparr>user := None, profile := None, session := None, timeoutId := False,
             loading := False, initialized := True, init_phase := Finished\<rparr>"
  using assms
  by (cases r) (simp_all add: initializeAuth_session_def finally_block_def clear_auth_def)

subsection \<open>The invariant, step by step\<close>

lemma invariant_step:
  assumes "fetch_safe s"
  shows "auth_invariant (step e s)"
proof (cases e)
  case (GetSessionSettled r)
  from assms show ?thesis
    by (simp add: GetSessionSettled initializeAuth_session_def finally_block_def clear_auth_def
        split: get_session_outcome.split option.split)
      (simp add: fetch_safe_def auth_invariant_def)
next
  case (InitProfileSettled r)
  from assms show ?thesis
    by (auto simp: InitProfileSettled initializeAuth_profile_def finally_block_def
        fetch_safe_def auth_invariant_def fetch_in_flight_def split: fetch_outcome.split)
next
  case TimeoutFired
  from assms show ?thesis
    by (simp add: TimeoutFired timeout_handler_def fetch_safe_def auth_invariant_def)
next
  case Unmount
  from assms show ?thesis
    by (simp add: Unmount cleanup_def fetch_safe_def auth_invariant_def)
next
  case (AuthStateChange ev ns)
  from assms show ?thesis
    by (auto simp: AuthStateChange handleAuthStateChange_def fetch_safe_def auth_invariant_def)
next
  case (HandlerProfileSettled r)
  from assms show ?thesis
    by (auto simp: HandlerProfileSettled handleAuthStateChange_profile_def fetch_safe_def
        auth_invariant_def fetch_in_flight_def split: fetch_outcome.split)
next
  case (SignOutSettled r)
  from assms show ?thesis
    by (simp add: SignOutSettled signOut_def fetch_safe_def auth_invariant_def
        split: sign_out_outcome.split)
qed

lemma invariant_states:
  assumes "fetch_safe s" and "fetch_guarded s es"
  shows "\<forall>s' \<in> set (states s es). auth_invariant s'"
  using assms
proof (induction es arbitrary: s)
  case Nil
  then show ?case by (simp add: fetch_safe_def)
next
  case (Cons e es)
  have "auth_invariant (step e s)"
    using Cons.prems(1) by (rule invariant_step)
  with Cons.prems(2) have "fetch_safe (step e s)" and "fetch_guarded (step e s) es"
    by (simp_all add: fetch_safe_def)
  then have "\<forall>s' \<in> set (states (step e s) es). auth_invariant s'"
    by (rule Cons.IH)
  with Cons.prems(1) show ?case by (simp add: fetch_safe_def)
qed

subsection \<open>\<open>signIn\<close> and \<open>signOut\<close>\<close>

lemma signIn_transport:
  assumes "supabaseConfigured e" and "includes_str (err_message error) ''fetch''"
  shows "signIn e email password (SignInResolved u sess (Some error)) =
           ([SignInWithPassword (trim email) password], Some (Error unable_to_connect))"
  using assms by (simp add: signIn_def supabaseConfigured_def)

lemma signIn_passes_error_on:
  assumes "supabaseConfigured e" and "\<not> includes_str (err_message error) ''fetch''"
  shows "signIn e email password (SignInResolved u sess (Some error)) =
           ([SignInWithPassword (trim email) password], Some (ServiceError error))"
  using assms includes_Failed_to_fetch [of "err_message error"]
  by (auto simp: signIn_def supabaseConfigured_def)

lemma signIn_rejected:
  assumes "supabaseConfigured e"
  shows "signIn e email password (SignInRejected x) =
           ([SignInWithPassword (trim email) password], Some (Caught x))"
  using assms by (simp add: signIn_def supabaseConfigured_def)

lemma signOut_resolved_clears:
  "user (signOut (SignOutResolved error) s) = None
   \<and> profile (signOut (SignOutResolved error) s) = None
   \<and> session (signOut (SignOutResolved error) s) = None"
  by (simp add: signOut_def)

subsection \<open>The banner after a list of events\<close>

lemma dispatch_all_snoc: "dispatch_all s (es @ [e]) = dispatch e (dispatch_all s es)"
  by (induction es arbitrary: s) simp_all

lemma banner_after_events:
  "ConnectionStatus e (dispatch_all s es) =
     (if \<not> supabaseConfigured e then ConfigurationErrorBanner
      else if es = [] then ConnectionStatus e s
      else if last es = offline then OfflineBanner else NoBanner)"
proof (induction es rule: rev_induct)
  case Nil
  then show ?case by (simp add: ConnectionStatus_def)
next
  case (snoc x xs)
  then show ?case
    by (cases x)
      (simp_all add: dispatch_all_snoc ConnectionStatus_def handleOnline_def handleOffline_def)
qed

section \<open>The claims\<close>

subsection \<open>C1: the invariant of \<open>AuthState\<close>\<close>

text \<open>
  C1 says that after every update \<open>profile \<noteq> null\<close> implies \<open>user \<noteq> null\<close>, for every
  sequence of bootstrap and auth-state-change events.  The program writes the result of a
  profile fetch whenever the fetch returns, whatever has happened to \<open>user\<close> in between
  (the last write wins).  The bootstrap finds a session and fetches the profile; the
  listener is told of a sign-out and clears \<open>user\<close> and \<open>profile\<close>; the fetch returns a row
  and \<open>setProfile\<close> stores it.
\<close>

theorem stale_profile_counterexample:
  "user (run mounted_state [session_found, signed_out, profile_found]) = None
   \<and> profile (run mounted_state [session_found, signed_out, profile_found]) = Some profile0
   \<and> \<not> auth_invariant (run mounted_state [session_found, signed_out, profile_found])"
  by (simp add: mounted_state_eq sample_defs initializeAuth_session_def
      handleAuthStateChange_def initializeAuth_profile_def finally_block_def auth_invariant_def)

text \<open>
  C1, as amended: in every run from the mounted provider in which no step leaves \<open>user\<close>
  absent while a profile fetch is still in flight, every state of the run satisfies the
  invariant: a profile is present only with a user, and without a user there is no profile.
\<close>

theorem invariant_without_stale_fetch:
  assumes "fetch_guarded mounted_state es"
  shows "\<forall>s \<in> set (states mounted_state es). auth_invariant s"
proof (rule invariant_states [OF _ assms])
  show "fetch_safe mounted_state"
    by (simp add: fetch_safe_def auth_invariant_def fetch_in_flight_def mounted_state_eq)
qed

theorem invariant_without_stale_fetch_witness:
  "fetch_guarded mounted_state [session_found, profile_found, signed_out]
   \<and> profile (run mounted_state [session_found, profile_found]) = Some profile0
   \<and> auth_invariant (run mounted_state [session_found, profile_found])
   \<and> auth_invariant (run mounted_state [session_found, profile_found, signed_out])"
proof -
  have g: "fetch_guarded mounted_state [session_found, profile_found, signed_out]"
    by (simp add: mounted_state_eq sample_defs initializeAuth_session_def
        handleAuthStateChange_def initializeAuth_profile_def finally_block_def
        fetch_in_flight_def)
  have p: "profile (run mounted_state [session_found, profile_found]) = Some profile0"
    unfolding signed_in_state_reachable by (simp add: signed_in_state_def)
  have "run mounted_state [session_found, profile_found]
          \<in> set (states mounted_state [session_found, profile_found, signed_out])"
    and "run mounted_state [session_found, profile_found, signed_out]
          \<in> set (states mounted_state [session_found, profile_found, signed_out])"
    by simp_all
  with invariant_without_stale_fetch [OF g] g p show ?thesis by blast
qed

subsection \<open>C2: \<open>signOut\<close>\<close>

text \<open>
  C2 says that \<open>signOut\<close> always ends with \<open>user\<close>, \<open>profile\<close> and \<open>session\<close> cleared, also
  when the remote call fails.  When the remote call reports an error the state is cleared
  (\<open>signOut_resolved_clears\<close>).  When the remote call rejects, control goes from the await
  to the \<open>catch\<close> block, past the three setters: the signed-in state is left as it was.
\<close>

theorem signOut_rejected_keeps_session:
  "signOut (SignOutRejected ''Network request failed'') signed_in_state = signed_in_state
   \<and> user (signOut (SignOutRejected ''Network request failed'') signed_in_state) = Some user0
   \<and> profile (signOut (SignOutRejected ''Network request failed'') signed_in_state)
       = Some profile0
   \<and> session (signOut (SignOutRejected ''Network request failed'') signed_in_state)
       = Some session0"
  by (simp add: signOut_def signed_in_state_def)

subsection \<open>C3: the ends of the bootstrap\<close>

text \<open>
  C3 says that a bootstrap that ends in failure or in the expiry of its time bound leaves
  \<open>user\<close>, \<open>profile\<close> and \<open>session\<close> cleared.  The timer callback sets \<open>loading\<close> and
  \<open>initialized\<close> and nothing else: when the session has been found and the timer fires
  while the profile is being fetched, \<open>user\<close> and \<open>session\<close> stay as they are.  So they do
  when the timer fires while \<open>getSession\<close> is still pending and the listener has been told
  of a sign-in in the meantime.
\<close>

theorem timeout_keeps_session_counterexample:
  "timeoutId (run mounted_state [session_found])
   \<and> user (run mounted_state [session_found, TimeoutFired]) = Some user0
   \<and> session (run mounted_state [session_found, TimeoutFired]) = Some session0
   \<and> \<not> loading (run mounted_state [session_found, TimeoutFired])
   \<and> init_phase (run mounted_state [AuthStateChange ''SIGNED_IN'' (Some session0), TimeoutFired])
       = AwaitSession
   \<and> user (run mounted_state [AuthStateChange ''SIGNED_IN'' (Some session0), TimeoutFired])
       = Some user0"
  by (simp add: mounted_state_eq sample_defs initializeAuth_session_def timeout_handler_def
      closure_initialized_def handleAuthStateChange_def)

text \<open>
  C3, as amended: in every state \<open>s\<close> that a run reaches with the provider mounted,
  \<^item> if \<open>getSession\<close> fails (reports an error or throws), \<open>user\<close>, \<open>profile\<close> and \<open>session\<close>
    are cleared and \<open>loading\<close> is false;
  \<^item> if the timer fires, \<open>loading\<close> is false and \<open>user\<close>, \<open>profile\<close> and \<open>session\<close> are
    left as they are;
  \<^item> if the profile fetch of the bootstrap returns, \<open>loading\<close> is false;
  \<^item> and once the bootstrap has returned or the timer is no longer pending, \<open>loading\<close> is
    false.
\<close>

theorem bootstrap_failure_and_loading:
  assumes "s = run mounted_state es" and "mounted s"
  shows "(init_phase s = AwaitSession \<and> session_failed r
            \<longrightarrow> user (step (GetSessionSettled r) s) = None
              \<and> profile (step (GetSessionSettled r) s) = None
              \<and> session (step (GetSessionSettled r) s) = None
              \<and> \<not> loading (step (GetSessionSettled r) s))
       \<and> (timeoutId s
            \<longrightarrow> \<not> loading (step TimeoutFired s)
              \<and> user (step TimeoutFired s) = user s
              \<and> profile (step TimeoutFired s) = profile s
              \<and> session (step TimeoutFired s) = session s)
       \<and> (init_phase s = AwaitProfile \<longrightarrow> \<not> loading (step (InitProfileSettled p) s))
       \<and> (init_phase s = Finished \<or> \<not> timeoutId s \<longrightarrow> \<not> loading s)"
proof -
  have "bootstrap_live s"
    unfolding assms(1) by (rule bootstrap_live_run [OF bootstrap_live_mounted])
  with assms(2) have a: "init_phase s = Finished \<or> \<not> timeoutId s \<longrightarrow> \<not> loading s"
    by (auto simp: bootstrap_live_def)
  have b: "init_phase s = AwaitSession \<and> session_failed r
            \<longrightarrow> user (step (GetSessionSettled r) s) = None
              \<and> profile (step (GetSessionSettled r) s) = None
              \<and> session (step (GetSessionSettled r) s) = None
              \<and> \<not> loading (step (GetSessionSettled r) s)"
    using assms(2) by (simp add: session_failed_clears)
  have c: "timeoutId s
            \<longrightarrow> \<not> loading (step TimeoutFired s)
              \<and> user (step TimeoutFired s) = user s
              \<and> profile (step TimeoutFired s) = profile s
              \<and> session (step TimeoutFired s) = session s"
    using assms(2) by (simp add: timeout_handler_def closure_initialized_def)
  have d: "init_phase s = AwaitProfile \<longrightarrow> \<not> loading (step (InitProfileSettled p) s)"
    using assms(2)
    by (simp add: initializeAuth_profile_def finally_block_def split: fetch_outcome.split)
  from a b c d show ?thesis by blast
qed

text \<open>The listener is told of a sign-in, then \<open>getSession\<close> reports an error: everything
  is cleared.  With the session found, the profile fetch returns and \<open>loading\<close> ends.\<close>

theorem bootstrap_failure_and_loading_witness:
  "user (run mounted_state [AuthStateChange ''SIGNED_IN'' (Some session0)]) = Some user0
   \<and> user (run mounted_state [AuthStateChange ''SIGNED_IN'' (Some session0), session_error]) = None
   \<and> profile (run mounted_state [AuthStateChange ''SIGNED_IN'' (Some session0), session_error])
       = None
   \<and> session (run mounted_state [AuthStateChange ''SIGNED_IN'' (Some session0), session_error])
       = None
   \<and> \<not> loading (run mounted_state [AuthStateChange ''SIGNED_IN'' (Some session0), session_error])
   \<and> \<not> loading (run mounted_state [AuthStateChange ''SIGNED_IN'' (Some session0), TimeoutFired])
   \<and> \<not> loading (run mounted_state [session_found, profile_found])
   \<and> \<not> loading (run mounted_state [session_found, profile_found, signed_out])"
proof -
  let ?s = "run mounted_state [AuthStateChange ''SIGNED_IN'' (Some session0)]"
  let ?r = "GetSessionResolved None
              (Some \<lparr> err_message = ''Invalid Refresh Token'', err_code = ''400'' \<rparr>)"
  have s: "?s = \<lparr> user = Some user0, profile = None, session = Some session0, loading = True,
                  initialized = False, mounted = True, timeoutId = True,
                  init_phase = AwaitSession, pending_fetches = 1 \<rparr>"
    by (simp add: mounted_state_eq handleAuthStateChange_def user_of_def session0_def)
  have m: "mounted ?s" and a: "init_phase ?s = AwaitSession" and t: "timeoutId ?s"
    and f: "session_failed ?r" and u: "user ?s = Some user0"
    unfolding s by simp_all
  have 1: "run mounted_state [AuthStateChange ''SIGNED_IN'' (Some session0), session_error]
             = step (GetSessionSettled ?r) ?s"
    and 2: "run mounted_state [AuthStateChange ''SIGNED_IN'' (Some session0), TimeoutFired]
             = step TimeoutFired ?s"
    by (simp_all add: session_error_def)
  let ?t = "run mounted_state [session_found]"
  have m': "mounted ?t" and a': "init_phase ?t = AwaitProfile"
    by (simp_all add: mounted_state_eq sample_defs initializeAuth_session_def)
  have 3: "run mounted_state [session_found, profile_found]
             = step (InitProfileSettled (FetchReturned (Some profile0))) ?t"
    by (simp add: profile_found_def)
  let ?v = "run mounted_state [session_found, profile_found, signed_out]"
  have m'': "mounted ?v" and a'': "init_phase ?v = Finished"
    by (simp_all add: mounted_state_eq sample_defs initializeAuth_session_def
        initializeAuth_profile_def finally_block_def handleAuthStateChange_def)
  from bootstrap_failure_and_loading [OF refl m, of ?r] a f t
    bootstrap_failure_and_loading [OF refl m', of _ "FetchReturned (Some profile0)"] a'
    bootstrap_failure_and_loading [OF refl m''] a''
  show ?thesis
    unfolding 1 2 3 using u by blast
qed

subsection \<open>C4: \<open>loading\<close> falls once\<close>

text \<open>
  C4: \<open>loading\<close> starts true, changes from true to false exactly once and never changes
  back.  For every list of events, in whatever order the continuations, the timer and the
  listener run: the mounted provider starts with \<open>loading\<close> true; along the run \<open>loading\<close>
  never goes from false to true and goes from true to false at most once; and when the
  provider is still mounted and the bootstrap has come to an end (it has returned, by
  success or failure, or its timer is no longer pending), it has gone from true to false
  exactly once.
\<close>

theorem loading_falls_once:
  "loading mounted_state
   \<and> rises (map loading (states mounted_state es)) = 0
   \<and> falls (map loading (states mounted_state es)) \<le> 1
   \<and> (mounted (run mounted_state es)
        \<and> (init_phase (run mounted_state es) = Finished \<or> \<not> timeoutId (run mounted_state es))
      \<longrightarrow> falls (map loading (states mounted_state es)) = 1)"
proof -
  have "bootstrap_live (run mounted_state es)"
    by (rule bootstrap_live_run [OF bootstrap_live_mounted])
  moreover have "loading mounted_state" by (simp add: mounted_state_eq)
  ultimately show ?thesis
    by (auto simp: rises_loading falls_loading bootstrap_live_def)
qed

text \<open>Two runs: the bootstrap succeeds and a sign-out follows; the timer fires while
  \<open>getSession\<close> is pending and \<open>getSession\<close> fails afterwards.\<close>

theorem loading_falls_once_witness:
  "mounted (run mounted_state [session_found, profile_found, signed_out])
   \<and> init_phase (run mounted_state [session_found, profile_found, signed_out]) = Finished
   \<and> falls (map loading (states mounted_state [session_found, profile_found, signed_out])) = 1
   \<and> rises (map loading (states mounted_state [session_found, profile_found, signed_out])) = 0
   \<and> mounted (run mounted_state [TimeoutFired, session_error])
   \<and> falls (map loading (states mounted_state [TimeoutFired, session_error])) = 1
   \<and> rises (map loading (states mounted_state [TimeoutFired, session_error])) = 0"
proof -
  have a: "mounted (run mounted_state [session_found, profile_found, signed_out])"
    and b: "init_phase (run mounted_state [session_found, profile_found, signed_out]) = Finished"
    by (simp_all add: mounted_state_eq sample_defs initializeAuth_session_def
        initializeAuth_profile_def finally_block_def handleAuthStateChange_def)
  have c: "mounted (run mounted_state [TimeoutFired, session_error])"
    and d: "init_phase (run mounted_state [TimeoutFired, session_error]) = Finished"
    by (simp_all add: mounted_state_eq sample_defs initializeAuth_session_def
        finally_block_def clear_auth_def timeout_handler_def closure_initialized_def)
  from loading_falls_once [of "[session_found, profile_found, signed_out]"]
    loading_falls_once [of "[TimeoutFired, session_error]"] a b c d
  show ?thesis by blast
qed

subsection \<open>C5: the default profile\<close>

text \<open>
  C5 says that whenever the lookup reports that the row is missing, \<open>fetchUserProfile\<close>
  creates a row with the role \<open>student\<close> and returns it.  The fallback returns \<open>null\<close> when
  \<open>getUser\<close> gives no user and when the insert reports an error.  Here the lookup reports
  \<open>PGRST116\<close>, the user is known, and the service refuses the insert.
\<close>

theorem fetch_not_found_counterexample:
  "lookup backend_denying ''u1'' = LookupResolved None (Some row_not_found)
   \<and> err_code row_not_found = ''PGRST116''
   \<and> snd (fetchUserProfile backend_denying ''u1'') = None"
  by (simp add: fetchUserProfile_def backend_denying_def row_not_found_def insert_denied_def)

text \<open>
  C5, as amended: when the lookup reports the row-not-found signal \<open>PGRST116\<close>,
  \<^item> if \<open>getUser\<close> gives the user and the insert succeeds, \<open>fetchUserProfile\<close> makes exactly
    one insert, of the row \<open>newProfile\<close> (the id asked for, the role \<open>student\<close>, email and
    full name from the user), and returns the row that the insert returned;
  \<^item> if \<open>getUser\<close> gives no user, it inserts nothing and returns \<open>null\<close>;
  \<^item> if the insert reports an error, it returns \<open>null\<close>.
\<close>

theorem fetch_not_found_creates_default:
  assumes "lookup b userId = LookupResolved d (Some err)" and "err_code err = ''PGRST116''"
  shows "(getUser b = GetUserResolved (Some u)
            \<and> insert_row b (newProfile userId u) = InsertResolved (Some row) None
          \<longrightarrow> fetchUserProfile b userId =
                ([SelectProfile userId, GetUser, InsertProfile (newProfile userId u)], Some row)
              \<and> length (filter is_insert (fst (fetchUserProfile b userId))) = 1
              \<and> role (newProfile userId u) = student
              \<and> profile_id (newProfile userId u) = userId)
       \<and> (getUser b = GetUserResolved None
          \<longrightarrow> fetchUserProfile b userId = ([SelectProfile userId, GetUser], None))
       \<and> (getUser b = GetUserResolved (Some u)
            \<and> insert_row b (newProfile userId u) = InsertResolved x (Some createError)
          \<longrightarrow> snd (fetchUserProfile b userId) = None)"
  using assms by (simp add: fetchUserProfile_def newProfile_def)

theorem fetch_not_found_creates_default_witness:
  "fetchUserProfile backend_storing ''u1'' =
     ([SelectProfile ''u1'', GetUser, InsertProfile (newProfile ''u1'' user0)],
      Some \<lparr> profile_id = ''u1'', profile_email = ''a@b.c'', full_name = Some ''Ann'',
             role = student \<rparr>)"
proof -
  have l: "lookup backend_storing ''u1'' = LookupResolved None (Some row_not_found)"
    by (simp add: backend_storing_def)
  have c: "err_code row_not_found = ''PGRST116''"
    by (simp add: row_not_found_def)
  have g: "getUser backend_storing = GetUserResolved (Some user0)"
    by (simp add: backend_storing_def)
  have i: "insert_row backend_storing (newProfile ''u1'' user0) =
             InsertResolved (Some (newProfile ''u1'' user0)) None"
    by (simp add: backend_storing_def)
  have n: "newProfile ''u1'' user0 =
             \<lparr> profile_id = ''u1'', profile_email = ''a@b.c'', full_name = Some ''Ann'',
               role = student \<rparr>"
    by (simp add: newProfile_def user0_def)
  from fetch_not_found_creates_default [OF l c, of user0 "newProfile ''u1'' user0"] g i n
  show ?thesis by simp
qed

subsection \<open>C6: \<open>signIn\<close> with the service out of reach\<close>

text \<open>
  C6 says that every sign-in that cannot reach the service returns an error of its own,
  distinct from the error for rejected credentials.  \<open>signIn\<close> recognises a transport
  failure by one test only: the error that \<open>signInWithPassword\<close> reports has the word
  \<open>fetch\<close> in its message.  A transport failure that is reported in other words (WebKit
  says \<open>Load failed\<close>) is returned as the service's error, unchanged, as the error for wrong
  credentials is; and when the call itself throws, the \<open>catch\<close> block returns what was
  thrown, whatever its message.  In neither case is the result the error
  \<open>unable_to_connect\<close>.
\<close>

theorem signIn_transport_unmapped_counterexample:
  "snd (signIn env0 ''a@b.c'' ''pw'' (SignInResolved None None (Some load_failed)))
     = Some (ServiceError load_failed)
   \<and> snd (signIn env0 ''a@b.c'' ''pw'' (SignInResolved None None (Some load_failed)))
       \<noteq> Some (Error unable_to_connect)
   \<and> snd (signIn env0 ''a@b.c'' ''pw'' (SignInRejected ''Failed to fetch''))
       = Some (Caught ''Failed to fetch'')
   \<and> snd (signIn env0 ''a@b.c'' ''pw'' (SignInRejected ''Failed to fetch''))
       \<noteq> Some (Error unable_to_connect)"
  by (simp add: signIn_def env0_def load_failed_def)

text \<open>
  C6, as amended: with the configuration present, for every sign-in in which
  \<open>signInWithPassword\<close> reports an error whose message contains \<open>fetch\<close>, \<open>signIn\<close> returns a
  new \<open>Error\<close> with the message \<open>unable_to_connect\<close>.  It is distinct from the error returned
  when the credentials are wrong, which is the service's error as it is (any reported
  error without \<open>fetch\<close> in its message is returned unchanged); their messages differ
  unless the service words its error as \<open>unable_to_connect\<close> itself.  When the call throws,
  what was thrown is returned unchanged.
\<close>

theorem signIn_unreachable_distinct:
  assumes "supabaseConfigured e"
    and "includes_str (err_message unreachable) ''fetch''"
    and "\<not> includes_str (err_message rejected) ''fetch''"
  shows "snd (signIn e email password (SignInResolved u sess (Some unreachable)))
           = Some (Error unable_to_connect)
       \<and> snd (signIn e email password (SignInResolved u' sess' (Some rejected)))
           = Some (ServiceError rejected)
       \<and> snd (signIn e email password (SignInResolved u sess (Some unreachable)))
           \<noteq> snd (signIn e email password (SignInResolved u' sess' (Some rejected)))
       \<and> (err_message rejected \<noteq> unable_to_connect
          \<longrightarrow> map_option error_message
                (snd (signIn e email password (SignInResolved u sess (Some unreachable))))
              \<noteq> map_option error_message
                  (snd (signIn e email password (SignInResolved u' sess' (Some rejected)))))
       \<and> snd (signIn e email password (SignInRejected x)) = Some (Caught x)"
  by (simp add: signIn_transport [OF assms(1,2)] signIn_passes_error_on [OF assms(1,3)]
      signIn_rejected [OF assms(1)])

theorem signIn_unreachable_distinct_witness:
  "snd (signIn env0 ''a@b.c'' ''pw'' (SignInResolved None None (Some fetch_failed)))
     = Some (Error unable_to_connect)
   \<and> snd (signIn env0 ''a@b.c'' ''pw'' (SignInResolved None None (Some bad_password)))
       = Some (ServiceError bad_password)
   \<and> map_option error_message
        (snd (signIn env0 ''a@b.c'' ''pw'' (SignInResolved None None (Some fetch_failed))))
       \<noteq> map_option error_message
           (snd (signIn env0 ''a@b.c'' ''pw'' (SignInResolved None None (Some bad_password))))
   \<and> snd (signIn env0 ''a@b.c'' ''pw'' (SignInRejected ''boom'')) = Some (Caught ''boom'')"
proof -
  have c: "supabaseConfigured env0"
    by (simp add: supabaseConfigured_def env0_def)
  have t: "includes_str (err_message fetch_failed) ''fetch''"
    by (simp add: fetch_failed_def)
  have r: "\<not> includes_str (err_message bad_password) ''fetch''"
    by (simp add: bad_password_def)
  have m: "err_message bad_password \<noteq> unable_to_connect"
    by (simp add: bad_password_def unable_to_connect_def)
  from signIn_unreachable_distinct
         [OF c t r, of "''a@b.c''" "''pw''" None None None None "''boom''"] m
  show ?thesis by blast
qed

subsection \<open>C7: \<open>signUp\<close> when the profile row cannot be created\<close>

text \<open>
  C7: when the account is created (no error, a user is returned) and the insert of the
  profile row reports an error, \<open>signUp\<close> returns that error, and the account is not rolled
  back: the requests made are the sign-up and the insert, and nothing after them.
\<close>

theorem signUp_profile_error_surfaced:
  assumes "created = SignUpResolved (Some u) None"
    and "ins (profileData u email fullName r) = InsertResolved d (Some profileError)"
  shows "signUp email password fullName r created ins =
           ([AuthSignUp (trim email) password fullName,
             InsertProfile (profileData u email fullName r)],
            Some (ServiceError profileError))"
  using assms by (simp add: signUp_def)

theorem signUp_profile_error_surfaced_witness:
  "signUp '' a@b.c '' ''pw'' ''Ann'' student (SignUpResolved (Some user0) None)
      (\<lambda>p. InsertResolved None (Some insert_denied)) =
     ([AuthSignUp ''a@b.c'' ''pw'' ''Ann'',
       InsertProfile \<lparr> profile_id = ''u1'', profile_email = ''a@b.c'', full_name = Some ''Ann'',
                       role = student \<rparr>],
      Some (ServiceError insert_denied))"
  using signUp_profile_error_surfaced
    [of "SignUpResolved (Some user0) None" user0 "\<lambda>p. InsertResolved None (Some insert_denied)"
        "'' a@b.c ''" "''Ann''" student None insert_denied "''pw''"]
  by (simp add: profileData_def trim_sample user0_def)

subsection \<open>C8: a student on an admin route\<close>

text \<open>
  C8: with \<open>loading\<close> false, a user present, a profile present whose role is \<open>student\<close>,
  and \<open>requireAdmin\<close> true, the guard redirects to \<open>/dashboard\<close>, the default route of a
  student, and not to \<open>/login\<close>.
\<close>

theorem guard_student_on_admin_route:
  assumes "\<not> loading ctx" and "user ctx = Some u" and "profile ctx = Some p"
    and "role p = student"
  shows "ProtectedRoute True requireStudent ctx = Navigate ''/dashboard''
         \<and> ProtectedRoute True requireStudent ctx \<noteq> Navigate ''/login''"
  using assms by (simp add: ProtectedRoute_def)

theorem guard_student_on_admin_route_witness:
  "ProtectedRoute True False (signed_in_state\<lparr>profile := Some (profile0\<lparr>role := student\<rparr>)\<rparr>)
     = Navigate ''/dashboard''"
  using guard_student_on_admin_route
    [of "signed_in_state\<lparr>profile := Some (profile0\<lparr>role := student\<rparr>)\<rparr>" user0
        "profile0\<lparr>role := student\<rparr>" False]
  by (simp add: signed_in_state_def)

subsection \<open>C9: the connectivity banner\<close>

text \<open>
  C9: for every value of \<open>navigator.onLine\<close> at the first render and every list of online
  and offline events: without the configuration the banner is the configuration error;
  with it, there is no banner at the first render, the offline banner is shown exactly
  when at least one event has arrived and the latest one is \<open>offline\<close>, so it is shown
  right after an offline event and gone right after the online event that follows.
\<close>

theorem connection_banner:
  "(\<not> supabaseConfigured e \<longrightarrow>
      ConnectionStatus e (dispatch_all (connection_initial b) es) = ConfigurationErrorBanner)
   \<and> (supabaseConfigured e \<longrightarrow>
        ConnectionStatus e (connection_initial b) = NoBanner
        \<and> (ConnectionStatus e (dispatch_all (connection_initial b) es) = OfflineBanner
             \<longleftrightarrow> es \<noteq> [] \<and> last es = offline)
        \<and> ConnectionStatus e (dispatch_all (connection_initial b) (es @ [offline]))
            = OfflineBanner
        \<and> ConnectionStatus e (dispatch_all (connection_initial b) (es @ [offline, online]))
            = NoBanner)"
  by (simp add: banner_after_events) (simp add: ConnectionStatus_def connection_initial_def)

theorem connection_banner_witness:
  "ConnectionStatus env_missing (dispatch_all (connection_initial True) [offline, online])
     = ConfigurationErrorBanner
   \<and> ConnectionStatus env0 (connection_initial False) = NoBanner
   \<and> ConnectionStatus env0 (dispatch_all (connection_initial False) [online, offline])
       = OfflineBanner
   \<and> ConnectionStatus env0 (dispatch_all (connection_initial False) [online, offline, online])
       = NoBanner"
proof -
  have c: "supabaseConfigured env0" and n: "\<not> supabaseConfigured env_missing"
    by (simp_all add: supabaseConfigured_def env0_def env_missing_def)
  from connection_banner [of env_missing True "[offline, online]"]
    connection_banner [of env0 False "[online]"] c n
  show ?thesis by simp
qed

subsection \<open>C10: the derived flags\<close>

text \<open>
  C10: in every state, \<open>isAdmin\<close> and \<open>isStudent\<close> are not both true, both are false when
  there is no profile, \<open>isAdmin\<close> holds exactly when the profile has the role \<open>admin\<close> and
  \<open>isStudent\<close> exactly when it has the role \<open>student\<close>.
\<close>

theorem derived_flags_exclusive:
  "\<not> (isAdmin s \<and> isStudent s)
   \<and> (profile s = None \<longrightarrow> \<not> isAdmin s \<and> \<not> isStudent s)
   \<and> (isAdmin s \<longleftrightarrow> (\<exists>p. profile s = Some p \<and> role p = admin))
   \<and> (isStudent s \<longleftrightarrow> (\<exists>p. profile s = Some p \<and> role p = student))"
  by (cases "profile s") (auto simp: isAdmin_def isStudent_def)

theorem derived_flags_exclusive_witness:
  "profile initial_state = None
   \<and> \<not> isAdmin initial_state \<and> \<not> isStudent initial_state
   \<and> isAdmin signed_in_state \<and> \<not> isStudent signed_in_state"
  using derived_flags_exclusive [of initial_state] derived_flags_exclusive [of signed_in_state]
  by (simp add: initial_state_def signed_in_state_def profile0_def)

end
